theory Spec2Isabelle
  imports Main
begin

section \<open>Errors\<close>

text \<open>
  Every \<open>throw\<close> of the sources is a value of this type. The constructors are named
  after the error taxonomy; the message of the JavaScript \<open>Error\<close> is given beside each.
\<close>

datatype error =
    MissingRoot                \<comment> \<open>\<open>Error('missing roots')\<close>\<close>
  | TooManyRoots               \<comment> \<open>\<open>Error('too many roots')\<close>\<close>
  | BlockTooLarge nat nat      \<comment> \<open>\<open>Error('block too big: ' + blockSize + ' > ' + MAX_BLOCK_SIZE)\<close>\<close>
  | EmptyArchive               \<comment> \<open>\<open>Error('empty CAR')\<close>\<close>
  | MissingRootBlock           \<comment> \<open>\<open>Error('missing root block')\<close>\<close>
  | IncompleteDag              \<comment> \<open>\<open>Error('CAR must contain at least one non-root block')\<close>\<close>
  | NoReplicas                 \<comment> \<open>\<open>Error('not pinning on any node')\<close>\<close>
  | InvalidCidError string     \<comment> \<open>\<open>new InvalidCidError(cid)\<close>\<close>
  | TypeError                  \<comment> \<open>a property read or call on a value that does not have it\<close>
  | Thrown string              \<comment> \<open>an exception raised by a collaborator or a library\<close>

section \<open>CAR validation: \<open>carStat\<close> (api/src/car.js)\<close>

type_synonym bytes = "nat list"

text \<open>A content identifier as the multiformats library holds it; \<open>equals\<close> compares
  these three components, which is equality of the record.\<close>

record cid =
  version :: nat
  code :: nat
  multihash :: bytes

record block =
  cid :: cid
  bytes :: bytes

text \<open>The uploaded \<open>Blob\<close> of a well-formed archive: its byte size, and what
  \<open>CarBlockIterator\<close> yields for it, the declared roots of the header and the blocks in
  stream order.\<close>

record car =
  blobSize :: nat
  getRoots :: "cid list"
  blocks :: "block list"

record PBLink =
  Hash :: cid
  Name :: "string option"
  Tsize :: "nat option"

text \<open>A decoded root value. For dag-cbor the value is kept as the identifiers that
  \<open>Block.links()\<close> finds in it.\<close>

datatype node =
    PBNode (Data: "bytes option") (Links: "PBLink list")
  | RawNode bytes
  | CborNode "cid list"

text \<open>The \<open>decode\<close> functions of the three codec libraries, \<open>None\<close> when they throw.\<close>

record codecs =
  pb_decode :: "bytes \<Rightarrow> node option"
  raw_decode :: "bytes \<Rightarrow> node option"
  cbor_decode :: "bytes \<Rightarrow> node option"

definition pb_code :: nat where "pb_code = 112"
definition raw_code :: nat where "raw_code = 85"
definition cbor_code :: nat where "cbor_code = 113"

text \<open>\<open>const decoders = [pb, raw, cbor]\<close>, each with its \<open>code\<close> and \<open>decode\<close>.\<close>

definition decoders :: "codecs \<Rightarrow> (nat \<times> (bytes \<Rightarrow> node option)) list" where
  "decoders lib = [(pb_code, pb_decode lib), (raw_code, raw_decode lib), (cbor_code, cbor_decode lib)]"

text \<open>Modelled from the spec: \<open>MAX_BLOCK_SIZE\<close> is imported from constants.js, which is
  not among the sources; the spec and the comment above \<open>carStat\<close> give 1 MiB.\<close>

definition MAX_BLOCK_SIZE :: nat where
  "MAX_BLOCK_SIZE = 1048576"

text \<open>\<open>rootBlock.links()\<close>: the identifiers a decoded value refers to.\<close>

fun links :: "node \<Rightarrow> cid list" where
  "links (PBNode d ls) = map Hash ls"
| "links (RawNode b) = []"
| "links (CborNode cs) = cs"

subsection \<open>JavaScript numbers that hold sizes\<close>

text \<open>
  A size is a JavaScript number, an IEEE double. The doubles that are natural numbers are
  the naturals below \<open>2^53\<close> and, above, the multiples of a power of two that grows with
  the magnitude: \<open>ulp n\<close> is the distance between neighbouring doubles around \<open>n\<close>.
  \<open>roundDouble n\<close> is the double nearest to \<open>n\<close>, the one with the even significand on
  a tie; from \<open>2^1024\<close> on the result is \<open>Infinity\<close>. The sum of two numbers is the exact
  sum, rounded.
\<close>

function ulp :: "nat \<Rightarrow> nat" where
  "ulp n = (if n < 2 ^ 53 then 1 else 2 * ulp (n div 2))"
  by pat_completeness auto
termination
proof (relation "measure id")
  show "wf (measure id)" by simp
next
  fix n :: nat
  assume "\<not> n < 2 ^ 53"
  then have "0 < n" by (cases n) simp_all
  then show "(n div 2, n) \<in> measure id" by simp
qed

declare ulp.simps [simp del]

definition roundDouble :: "nat \<Rightarrow> nat" where
  "roundDouble n =
     (let u = ulp n; q = n div u; r = n mod u in
      if 2 * r < u \<or> (2 * r = u \<and> even q) then q * u else (q + 1) * u)"

datatype number = Finite nat | Infinity

definition toNumber :: "nat \<Rightarrow> number" where
  "toNumber n = (let d = roundDouble n in if d < 2 ^ 1024 then Finite d else Infinity)"

text \<open>\<open>a + b\<close> on such numbers.\<close>

fun plus' :: "number \<Rightarrow> number \<Rightarrow> number" where
  "plus' (Finite a) (Finite b) = toNumber (a + b)"
| "plus' a b = Infinity"

text \<open>\<open>curr.Tsize || 0\<close>: the declared size, a number, or 0 when the link has none.\<close>

definition tsizeOr0 :: "PBLink \<Rightarrow> number" where
  "tsizeOr0 l = (case Tsize l of None \<Rightarrow> Finite 0 | Some t \<Rightarrow> toNumber t)"

text \<open>\<open>cumulativeSize\<close>: the length of the node's bytes plus the \<open>Tsize\<close> of each link,
  added as JavaScript adds numbers. Reading \<open>Links\<close> off a value that is no dag-pb node
  is a \<open>TypeError\<close>.\<close>

fun cumulativeSize :: "bytes \<Rightarrow> node \<Rightarrow> error + number" where
  "cumulativeSize pbNodeBytes (PBNode d ls) =
     Inr (plus' (Finite (length pbNodeBytes))
            (foldl (\<lambda>acc curr. plus' acc (tsizeOr0 curr)) (Finite 0) ls))"
| "cumulativeSize pbNodeBytes v = Inl TypeError"

text \<open>The local variables of the \<open>for await\<close> loop of \<open>carStat\<close>. The blocks are
  disjoint slices of the one array that holds the archive, so their number and the sum of
  their lengths stay below the length of that array, where every addition is exact: the
  two counters are natural numbers.\<close>

record scan =
  rawRootBlock :: "block option"
  nblocks :: nat
  nsize :: nat

fun scanBlocks :: "cid \<Rightarrow> block list \<Rightarrow> scan \<Rightarrow> error + scan" where
  "scanBlocks rootCid [] s = Inr s"
| "scanBlocks rootCid (b # bs) s =
     (let blockSize = length (bytes b) in
      if blockSize > MAX_BLOCK_SIZE then Inl (BlockTooLarge blockSize MAX_BLOCK_SIZE)
      else scanBlocks rootCid bs
        \<lparr> rawRootBlock =
            (if rawRootBlock s = None \<and> cid b = rootCid then Some b else rawRootBlock s),
          nblocks = nblocks s + 1,
          nsize = nsize s + blockSize \<rparr>)"

record CarStat =
  size' :: number
  blocks' :: nat

definition carStat :: "codecs \<Rightarrow> car \<Rightarrow> error + CarStat" where
  "carStat lib carBlob =
     (let roots = getRoots carBlob in
      if length roots = 0 then Inl MissingRoot
      else if length roots > 1 then Inl TooManyRoots
      else
        let rootCid = roots ! 0 in
        (case scanBlocks rootCid (blocks carBlob) \<lparr>rawRootBlock = None, nblocks = 0, nsize = 0\<rparr> of
          Inl e \<Rightarrow> Inl e
        | Inr s \<Rightarrow>
            if nblocks s = 0 then Inl EmptyArchive
            else (case rawRootBlock s of
              None \<Rightarrow> Inl MissingRootBlock
            | Some rb \<Rightarrow>
                (case find (\<lambda>d. fst d = code rootCid) (decoders lib) of
                   None \<Rightarrow> Inr \<lparr>size' = Finite (nsize s), blocks' = nblocks s\<rparr>
                 | Some decoder \<Rightarrow>
                     (case snd decoder (bytes rb) of
                        None \<Rightarrow> Inl (Thrown ''decode'')
                      | Some v \<Rightarrow>
                          if nblocks s = 1 \<and> length (links v) > 0 then Inl IncompleteDag
                          else if code rootCid = pb_code then
                            (case cumulativeSize (bytes rb) v of
                               Inl e \<Rightarrow> Inl e
                             | Inr n \<Rightarrow> Inr \<lparr>size' = n, blocks' = nblocks s\<rparr>)
                          else Inr \<lparr>size' = Finite (nsize s), blocks' = nblocks s\<rparr>)))))"

section \<open>Pin status aggregation: \<open>getPinningAPIStatus\<close> (api/src/pins.js)\<close>

datatype apiPinStatus = queued | pinning | failed | pinned

text \<open>Of a pin row only \<open>status\<close> is read.\<close>

record PinItemOutput =
  status :: string

text \<open>\<open>Array.prototype.includes\<close> on strings.\<close>

fun includes' :: "string list \<Rightarrow> string \<Rightarrow> bool" where
  "includes' [] v = False"
| "includes' (x # xs) v = (x = v \<or> includes' xs v)"

definition getPinningAPIStatus :: "'a PinItemOutput_scheme list \<Rightarrow> apiPinStatus" where
  "getPinningAPIStatus pins =
     (let pinStatuses = map status pins in
      if includes' pinStatuses ''Pinned'' then pinned
      else if includes' pinStatuses ''Pinning'' then pinning
      else if includes' pinStatuses ''PinQueued'' \<or> includes' pinStatuses ''Remote'' then queued
      else if length pinStatuses = 0 then queued
      else failed)"

section \<open>Effects\<close>

text \<open>
  The handlers talk to the pinning cluster, the database and the clock. Each such call is
  an event appended to a history; what a collaborator answers is a function of the history
  before the call, so an answer may change from one call to the next. \<open>response\<close> is
  \<open>new JSONResponse(body, { status })\<close> (status 200 by default) or \<open>notFound()\<close>.
\<close>

record PinLocation =
  peerId :: string
  peerName :: string

record pin = PinItemOutput +
  location :: PinLocation

text \<open>The variables of the \<open>CREATE_UPLOAD\<close> mutation.\<close>

record CreateUploadInput =
  user :: string
  authToken :: "string option"
  upload_cid :: string
  upload_name :: string
  upload_type :: string
  upload_pins :: "pin list"
  dagSize :: number

datatype query =
    CREATE_UPLOAD CreateUploadInput
  | CREATE_OR_UPDATE_PIN string pin
  | INCREMENT_USER_USED_STORAGE string number

datatype event =
    ClusterAdd nat bool        \<comment> \<open>\<open>env.cluster.add(car, { metadata: { size }, local })\<close>\<close>
  | ClusterStatus string       \<comment> \<open>\<open>env.cluster.status(cid)\<close>\<close>
  | DbQuery query              \<comment> \<open>\<open>env.db.query(...)\<close>\<close>
  | DbGetStatus string         \<comment> \<open>\<open>env.db.getStatus(cid)\<close>\<close>
  | DateNow                    \<comment> \<open>\<open>Date.now()\<close>, \<open>new Date()\<close>\<close>
  | SetTimeout nat             \<comment> \<open>\<open>await new Promise(resolve => setTimeout(resolve, ms))\<close>\<close>
  | ConsoleLog string          \<comment> \<open>\<open>console.log\<close>, \<open>console.error\<close>\<close>

datatype 'a response = JSONResponse 'a nat | NotFound

text \<open>\<open>peerMap\<close>: the entries \<open>peerId \<mapsto> { peerName, status }\<close> in the order of
  \<open>Object.entries\<close>, each as \<open>(peerId, peerName, status)\<close>.\<close>

type_synonym peerMap = "(string \<times> string \<times> string) list"

text \<open>
  Everything \<open>handleCarUpload\<close> receives from outside: the codec libraries, the two
  imports that are not among the sources (\<open>toPinStatusEnum\<close> of utils/pin.js and
  \<open>LOCAL_ADD_THRESHOLD\<close> of constants.js), \<open>retry\<close> of the p-retry library, the cluster
  and database clients of \<open>env\<close>, and the clock. \<open>retry\<close> is given the number of
  retries, the operation and the history, and decides by itself how often it runs the
  operation and which failure it reports.
\<close>

record world =
  codecs :: codecs
  toPinStatusEnum :: "string \<Rightarrow> error + string"
  LOCAL_ADD_THRESHOLD :: nat
  retry :: "nat \<Rightarrow> (event list \<Rightarrow> (error + string) \<times> event list) \<Rightarrow> event list
      \<Rightarrow> (error + string) \<times> event list"
  cluster_add :: "event list \<Rightarrow> car \<Rightarrow> bool \<Rightarrow> error + string"
  cluster_status :: "event list \<Rightarrow> string \<Rightarrow> error + peerMap"
  db_query :: "event list \<Rightarrow> query \<Rightarrow> error + string"
  Date_now :: "event list \<Rightarrow> int"
  toISOString :: "event list \<Rightarrow> string"

definition PIN_STATUS_CHECK_INTERVAL :: nat where
  "PIN_STATUS_CHECK_INTERVAL = 5000"

definition MAX_PIN_STATUS_CHECK_TIME :: int where
  "MAX_PIN_STATUS_CHECK_TIME = 30000"

definition PIN_OK_STATUS :: "string list" where
  "PIN_OK_STATUS = [''Pinned'', ''Pinning'', ''PinQueued'']"

definition CREATE_UPLOAD_RETRIES :: nat where
  "CREATE_UPLOAD_RETRIES = 4"

section \<open>The upload handler: \<open>handleCarUpload\<close> (api/src/car.js)\<close>

fun toPins :: "(string \<Rightarrow> error + string) \<Rightarrow> peerMap \<Rightarrow> error + pin list" where
  "toPins f [] = Inr []"
| "toPins f ((pid, pname, st) # rest) =
     (case f st of
        Inl e \<Rightarrow> Inl e
      | Inr s \<Rightarrow>
          (case toPins f rest of
             Inl e \<Rightarrow> Inl e
           | Inr ps \<Rightarrow> Inr (\<lparr>status = s, location = \<lparr>peerId = pid, peerName = pname\<rparr>\<rparr> # ps)))"

text \<open>One \<open>await env.db.query(q, variables)\<close>.\<close>

definition query :: "world \<Rightarrow> query \<Rightarrow> event list \<Rightarrow> (error + string) \<times> event list" where
  "query w q h = (db_query w h q, h @ [DbQuery q])"

record AuthenticatedRequest =
  auth_user :: string                 \<comment> \<open>\<open>request.auth.user._id\<close>\<close>
  auth_authToken :: "string option"   \<comment> \<open>\<open>request.auth.authToken?._id\<close>\<close>
  x_name :: "string option"           \<comment> \<open>\<open>request.headers.get('x-name')\<close>\<close>

text \<open>The two background tasks the handler may push; \<open>ctx.waitUntil(t())\<close> starts them,
  and the response does not wait for them.\<close>

datatype task =
    IncrementUsedStorage string number
  | PollPinStatus string string

definition handleCarUpload :: "world \<Rightarrow> AuthenticatedRequest \<Rightarrow> bool \<Rightarrow> car \<Rightarrow> string
    \<Rightarrow> event list \<Rightarrow> (error + string response) \<times> task list \<times> event list" where
  "handleCarUpload w request waitUntil car uploadType h =
     (case carStat (codecs w) car of
        Inl e \<Rightarrow> (Inl e, [], h)
      | Inr st \<Rightarrow>
          (let local = blobSize car > LOCAL_ADD_THRESHOLD w;
               h1 = h @ [ClusterAdd (blobSize car) local] in
           case cluster_add w h car local of
             Inl e \<Rightarrow> (Inl e, [], h1)
           | Inr cid' \<Rightarrow>
               (let h2 = h1 @ [ClusterStatus cid'] in
                case cluster_status w h1 cid' of
                  Inl e \<Rightarrow> (Inl e, [], h2)
                | Inr peerMap \<Rightarrow>
                    (case toPins (toPinStatusEnum w) peerMap of
                       Inl e \<Rightarrow> (Inl e, [], h2)
                     | Inr pins \<Rightarrow>
                         if length pins = 0 then (Inl NoReplicas, [], h2)
                         else
                           (let (name, h3) =
                                  (case x_name request of
                                     None \<Rightarrow> (''Upload at '' @ toISOString w h2, h2 @ [DateNow])
                                   | Some n \<Rightarrow>
                                       if n = [] then (''Upload at '' @ toISOString w h2, h2 @ [DateNow])
                                       else (n, h2)) in
                            case retry w CREATE_UPLOAD_RETRIES
                                   (query w (CREATE_UPLOAD
                                      \<lparr>user = auth_user request, authToken = auth_authToken request,
                                       upload_cid = cid', upload_name = name, upload_type = uploadType,
                                       upload_pins = pins, dagSize = size' st\<rparr>)) h3 of
                              (Inl e, h4) \<Rightarrow> (Inl e, [], h4)
                            | (Inr content_id, h4) \<Rightarrow>
                                (let tasks =
                                       IncrementUsedStorage (auth_user request) (size' st) #
                                       (if \<not> list_ex (\<lambda>p. includes' PIN_OK_STATUS (status p)) pins
                                        then [PollPinStatus cid' content_id] else []) in
                                 (Inr (JSONResponse cid' 200), if waitUntil then tasks else [], h4)))))))"

subsection \<open>The background tasks\<close>

datatype completion = Returned | Threw error | OutOfFuel

text \<open>The first task: the failure of the query is caught and logged.\<close>

definition incrementUsedStorage :: "world \<Rightarrow> string \<Rightarrow> number \<Rightarrow> event list
    \<Rightarrow> completion \<times> event list" where
  "incrementUsedStorage w u amount h =
     (case query w (INCREMENT_USER_USED_STORAGE u amount) h of
        (Inl e, h') \<Rightarrow> (Returned, h' @ [ConsoleLog ''failed to update user used storage''])
      | (Inr v, h') \<Rightarrow> (Returned, h'))"

text \<open>\<open>for (const pin of okPins) await env.db.query(CREATE_OR_UPDATE_PIN, ...)\<close>\<close>

fun upsertPins :: "world \<Rightarrow> string \<Rightarrow> pin list \<Rightarrow> event list \<Rightarrow> completion \<times> event list" where
  "upsertPins w content_id [] h = (Returned, h)"
| "upsertPins w content_id (p # ps) h =
     (case query w (CREATE_OR_UPDATE_PIN content_id p) h of
        (Inl e, h') \<Rightarrow> (Threw e, h')
      | (Inr v, h') \<Rightarrow> upsertPins w content_id ps h')"

text \<open>
  The second task. Its \<open>while\<close> loop has no bound of its own, so the model counts the
  iterations down from a fuel: \<open>OutOfFuel\<close> says the loop was still running. The guard is
  the source's, \<open>Date.now() - start > MAX_PIN_STATUS_CHECK_TIME\<close>.
\<close>

fun pollLoop :: "nat \<Rightarrow> world \<Rightarrow> string \<Rightarrow> string \<Rightarrow> int \<Rightarrow> event list
    \<Rightarrow> completion \<times> event list" where
  "pollLoop 0 w cid' content_id start h = (OutOfFuel, h)"
| "pollLoop (Suc fuel) w cid' content_id start h =
     (let t = Date_now w h; h1 = h @ [DateNow] in
      if t - start > MAX_PIN_STATUS_CHECK_TIME then
        (let h2 = h1 @ [SetTimeout PIN_STATUS_CHECK_INTERVAL];
             h3 = h2 @ [ClusterStatus cid'] in
         case cluster_status w h2 cid' of
           Inl e \<Rightarrow> (Threw e, h3)
         | Inr peerMap \<Rightarrow>
             (case toPins (toPinStatusEnum w) peerMap of
                Inl e \<Rightarrow> (Threw e, h3)
              | Inr pins \<Rightarrow>
                  if length pins = 0 then (Threw NoReplicas, h3)
                  else
                    (let okPins = filter (\<lambda>p. includes' PIN_OK_STATUS (status p)) pins in
                     if length okPins = 0 then pollLoop fuel w cid' content_id start h3
                     else upsertPins w content_id okPins h3)))
      else (Returned, h1))"

definition pollPinStatus :: "nat \<Rightarrow> world \<Rightarrow> string \<Rightarrow> string \<Rightarrow> event list
    \<Rightarrow> completion \<times> event list" where
  "pollPinStatus fuel w cid' content_id h =
     (let start = Date_now w h in pollLoop fuel w cid' content_id start (h @ [DateNow]))"

fun runTask :: "nat \<Rightarrow> world \<Rightarrow> task \<Rightarrow> event list \<Rightarrow> completion \<times> event list" where
  "runTask fuel w (IncrementUsedStorage u amount) h = incrementUsedStorage w u amount h"
| "runTask fuel w (PollPinStatus cid' content_id) h = pollPinStatus fuel w cid' content_id h"

section \<open>CID normalisation: \<open>parseCid\<close> (api/src/utils/parse-cid.js)\<close>

text \<open>
  The three calls into the multiformats library, \<open>CID.parse\<close>, \<open>toV1\<close> and
  \<open>toString\<close>; \<open>None\<close> when the call throws. All three stand inside the \<open>try\<close>.
\<close>

record cidlib =
  CID_parse :: "string \<Rightarrow> cid option"
  toV1 :: "cid \<Rightarrow> cid option"
  toString :: "cid \<Rightarrow> string option"

definition parseCid :: "cidlib \<Rightarrow> string \<Rightarrow> error + string" where
  "parseCid L cid' =
     (case CID_parse L cid' of
        None \<Rightarrow> Inl (InvalidCidError cid')
      | Some c \<Rightarrow>
          (case toV1 L c of
             None \<Rightarrow> Inl (InvalidCidError cid')
           | Some c1 \<Rightarrow>
               (case toString L c1 of
                  None \<Rightarrow> Inl (InvalidCidError cid')
                | Some s \<Rightarrow> Inr s)))"


subsection \<open>The base36 spelling of an identifier\<close>











section \<open>The status handler: \<open>statusGet\<close> (api/src/status.js)\<close>

text \<open>What \<open>env.db.getStatus\<close> resolves to: of the content item the handler touches
  only \<open>cid\<close>, the other fields travel in the record's extension.\<close>

record ContentItemOutput =
  content_cid :: string

definition statusGet :: "cidlib
    \<Rightarrow> (event list \<Rightarrow> string \<Rightarrow> error + 'a ContentItemOutput_scheme option)
    \<Rightarrow> string \<Rightarrow> event list
    \<Rightarrow> (error + 'a ContentItemOutput_scheme response) \<times> event list" where
  "statusGet L getStatus cid' h =
     (case parseCid L cid' of
        Inl e \<Rightarrow> (Inl e, h)
      | Inr normalizedCid \<Rightarrow>
          (let h1 = h @ [ConsoleLog (''normalized '' @ normalizedCid)];
               h2 = h1 @ [DbGetStatus normalizedCid] in
           case getStatus h1 normalizedCid of
             Inl e \<Rightarrow> (Inl e, h2)
           | Inr None \<Rightarrow> (Inr NotFound, h2)
           | Inr (Some res) \<Rightarrow> (Inr (JSONResponse (res\<lparr>content_cid := cid'\<rparr>) 200), h2)))"

section \<open>The pin listing handler: \<open>pinsGet\<close> (api/src/pins.js)\<close>

text \<open>The values a request parameter can hold.\<close>

datatype jsval =
    Undefined | Null | Bool bool | Num int | Str string
  | Arr "jsval list" | Obj "(string \<times> jsval) list"

fun truthy :: "jsval \<Rightarrow> bool" where
  "truthy Undefined = False"
| "truthy Null = False"
| "truthy (Bool b) = b"
| "truthy (Num n) = (n \<noteq> 0)"
| "truthy (Str s) = (s \<noteq> [])"
| "truthy (Arr xs) = True"
| "truthy (Obj kvs) = True"

text \<open>\<open>typeof v === 'string'\<close> and \<open>Array.isArray(v)\<close>\<close>

fun isString :: "jsval \<Rightarrow> bool" where
  "isString (Str s) = True"
| "isString v = False"

fun isArray :: "jsval \<Rightarrow> bool" where
  "isArray (Arr xs) = True"
| "isArray v = False"

text \<open>\<open>OPTIONS.includes(v)\<close> for a list of strings: strict equality, so only a string
  can be found.\<close>

fun includesVal :: "string list \<Rightarrow> jsval \<Rightarrow> bool" where
  "includesVal opts (Str s) = includes' opts s"
| "includesVal opts v = False"

text \<open>\<open>v.every(f)\<close>: only an array has the method; on any other value the call is a
  \<open>TypeError\<close> (\<open>None\<close>).\<close>

fun every :: "jsval \<Rightarrow> (jsval \<Rightarrow> bool) \<Rightarrow> bool option" where
  "every (Arr xs) f = Some (list_all f xs)"
| "every v f = None"

definition ERROR_CODE :: nat where "ERROR_CODE = 400"
definition ERROR_STATUS :: string where "ERROR_STATUS = ''INVALID_PIN_DATA''"
definition INVALID_CID :: string where "INVALID_CID = ''Invalid cid''"
definition INVALID_MATCH :: string where
  \<open>INVALID_MATCH = ''Match should be a string (i.e. "exact", "iexact", "partial", "ipartial")''\<close>
definition INVALID_NAME :: string where "INVALID_NAME = ''Name should be a string''"
definition INVALID_STATUS :: string where "INVALID_STATUS = ''Status should be an array of strings''"
definition UNPERMITTED_MATCH :: string where
  \<open>UNPERMITTED_MATCH = ''Match should be "exact", "iexact", "partial", or "ipartial"''\<close>
definition UNPERMITTED_STATUS :: string where
  \<open>UNPERMITTED_STATUS = ''Status should be "queued", "pinning", "pinned", or "failed"''\<close>

definition MATCH_OPTIONS :: "string list" where
  "MATCH_OPTIONS = [''exact'', ''iexact'', ''partial'', ''ipartial'']"

definition STATUS_OPTIONS :: "string list" where
  "STATUS_OPTIONS = [''queued'', ''pinning'', ''pinned'', ''failed'']"

text \<open>\<open>{ error: { reason, details } }\<close>, or the string a handler answers with.\<close>

record PinDataError =
  reason :: string
  details :: string

datatype body = ErrorBody PinDataError | Text string

text \<open>\<open>const { cid, name, match, status } = request.params\<close>\<close>

record params =
  params_cid :: jsval
  params_name :: jsval
  params_match :: jsval
  params_status :: jsval

definition invalid :: "string \<Rightarrow> error + body response" where
  "invalid d = Inr (JSONResponse (ErrorBody \<lparr>reason = ERROR_STATUS, details = d\<rparr>) ERROR_CODE)"

text \<open>\<open>normalizeCid\<close> is imported from utils/normalize-cid.js, which is not among the
  sources: it is a parameter, \<open>Inl\<close> when it throws.\<close>

definition pinsGet :: "(jsval \<Rightarrow> error + string) \<Rightarrow> params \<Rightarrow> error + body response" where
  "pinsGet normalizeCid request_params =
     (let cid' = params_cid request_params; name = params_name request_params;
          match = params_match request_params; status' = params_status request_params in
      if truthy cid' \<and> isl (normalizeCid cid') then invalid INVALID_CID
      else if truthy name \<and> \<not> isString name then invalid INVALID_NAME
      else if truthy match \<and> \<not> isString match then
        (if \<not> includesVal MATCH_OPTIONS match then invalid UNPERMITTED_MATCH
         else invalid INVALID_MATCH)
      else if truthy status' \<and> \<not> isArray status' then
        (case every status' (\<lambda>v. includesVal STATUS_OPTIONS v) of
           None \<Rightarrow> Inl TypeError
         | Some isValidStatus \<Rightarrow>
             if \<not> isValidStatus then invalid UNPERMITTED_STATUS
             else invalid INVALID_STATUS)
      else Inr (JSONResponse (Text ''OK'') 200))"

section \<open>Example inputs\<close>

text \<open>
  The example of the specification: a dag-pb root of 50 encoded bytes with two links of
  declared sizes 100 and 200, alone in an archive (a shard) and with both children.
\<close>

definition ex_root :: cid where
  "ex_root = \<lparr>version = 1, code = pb_code, multihash = [18, 32, 1]\<rparr>"

definition ex_child1 :: cid where
  "ex_child1 = \<lparr>version = 1, code = raw_code, multihash = [18, 32, 2]\<rparr>"

definition ex_child2 :: cid where
  "ex_child2 = \<lparr>version = 1, code = raw_code, multihash = [18, 32, 3]\<rparr>"

definition ex_cbor :: cid where
  "ex_cbor = \<lparr>version = 1, code = cbor_code, multihash = [18, 32, 4]\<rparr>"

definition ex_node :: node where
  "ex_node = PBNode None
     [\<lparr>Hash = ex_child1, Name = None, Tsize = Some 100\<rparr>,
      \<lparr>Hash = ex_child2, Name = None, Tsize = Some 200\<rparr>]"

text \<open>Codec libraries whose dag-pb decoder reads the example's node from a block of 50
  bytes (and from one longer than \<open>MAX_BLOCK_SIZE\<close>), whose raw decoder accepts every
  block, and whose dag-cbor decoder reads one value, of three bytes, with one link.\<close>

definition ex_codecs :: codecs where
  "ex_codecs =
     \<lparr>pb_decode = (\<lambda>b. if length b = 50 \<or> length b > MAX_BLOCK_SIZE then Some ex_node else None),
      raw_decode = (\<lambda>b. Some (RawNode b)),
      cbor_decode = (\<lambda>b. if b = [1, 2, 3] then Some (CborNode [ex_child1]) else None)\<rparr>"

definition ex_shard :: car where
  "ex_shard = \<lparr>blobSize = 150, getRoots = [ex_root],
     blocks = [\<lparr>cid = ex_root, bytes = replicate 50 0\<rparr>]\<rparr>"

definition ex_full :: car where
  "ex_full = \<lparr>blobSize = 500, getRoots = [ex_root],
     blocks = [\<lparr>cid = ex_root, bytes = replicate 50 0\<rparr>,
               \<lparr>cid = ex_child1, bytes = replicate 100 0\<rparr>,
               \<lparr>cid = ex_child2, bytes = replicate 200 0\<rparr>]\<rparr>"

definition ex_partial :: car where
  "ex_partial = \<lparr>blobSize = 250, getRoots = [ex_root],
     blocks = [\<lparr>cid = ex_child1, bytes = replicate 100 0\<rparr>,
               \<lparr>cid = ex_root, bytes = replicate 50 0\<rparr>]\<rparr>"

definition ex_no_roots :: car where
  "ex_no_roots = \<lparr>blobSize = 40, getRoots = [],
     blocks = [\<lparr>cid = ex_child1, bytes = [7, 7]\<rparr>]\<rparr>"

definition ex_two_roots :: car where
  "ex_two_roots = \<lparr>blobSize = 80, getRoots = [ex_child1, ex_child2],
     blocks = [\<lparr>cid = ex_child1, bytes = [7, 7]\<rparr>]\<rparr>"

definition ex_cbor_shard :: car where
  "ex_cbor_shard = \<lparr>blobSize = 60, getRoots = [ex_cbor],
     blocks = [\<lparr>cid = ex_cbor, bytes = [1, 2, 3]\<rparr>]\<rparr>"

definition ex_big_root :: car where
  "ex_big_root = \<lparr>blobSize = 1048700, getRoots = [ex_root],
     blocks = [\<lparr>cid = ex_root, bytes = replicate (Suc MAX_BLOCK_SIZE) 0\<rparr>]\<rparr>"

definition ex_big_last :: car where
  "ex_big_last = \<lparr>blobSize = 1048800, getRoots = [ex_child1],
     blocks = [\<lparr>cid = ex_child1, bytes = [7, 7]\<rparr>,
               \<lparr>cid = ex_child2, bytes = replicate (Suc MAX_BLOCK_SIZE) 0\<rparr>]\<rparr>"

definition ex_no_roots_big :: car where
  "ex_no_roots_big = \<lparr>blobSize = 1048700, getRoots = [],
     blocks = [\<lparr>cid = ex_child2, bytes = replicate (Suc MAX_BLOCK_SIZE) 0\<rparr>]\<rparr>"

text \<open>A world whose cluster reports no peer at all, whose database accepts every query
  (so that \<open>retry\<close> has nothing to run twice) and whose clock advances by one millisecond
  per event.\<close>

definition ex_world :: world where
  "ex_world =
     \<lparr>codecs = ex_codecs,
      toPinStatusEnum = (\<lambda>s. if s = ''pinned'' then Inr ''Pinned''
                              else if s = ''unpinned'' then Inr ''Unpinned''
                              else Inl (Thrown ''invalid tracker status'')),
      LOCAL_ADD_THRESHOLD = 2621440,
      retry = (\<lambda>retries fn h. fn h),
      cluster_add = (\<lambda>h c local. Inr ''bafyroot''),
      cluster_status = (\<lambda>h c. Inr []),
      db_query = (\<lambda>h q. Inr ''1''),
      Date_now = (\<lambda>h. 1000 + int (length h)),
      toISOString = (\<lambda>h. ''2021-10-01T00:00:00.000Z'')\<rparr>"

definition ex_request :: AuthenticatedRequest where
  "ex_request = \<lparr>auth_user = ''42'', auth_authToken = None, x_name = None\<rparr>"

text \<open>A library that knows one hash under three spellings: the version-0 string, and the
  base58btc and base32 strings of its version-1 form.\<close>

definition ex_v0 :: cid where
  "ex_v0 = \<lparr>version = 0, code = pb_code, multihash = [18, 32, 9]\<rparr>"

definition ex_cidlib :: cidlib where
  "ex_cidlib =
     \<lparr>CID_parse = (\<lambda>s. if s = ''QmA'' then Some ex_v0
                         else if s = ''zA'' \<or> s = ''bA'' then Some (ex_v0\<lparr>version := 1\<rparr>)
                         else None),
      toV1 = (\<lambda>c. if version c \<le> 1 then Some (c\<lparr>version := 1\<rparr>) else None),
      toString = (\<lambda>c. if c = ex_v0\<lparr>version := 1\<rparr> then Some ''bA'' else None)\<rparr>"








text \<open>A database that holds one content item, under the normalised string, and one
  that holds none.\<close>

definition ex_getStatus :: "event list \<Rightarrow> string \<Rightarrow> error + ContentItemOutput option" where
  "ex_getStatus h c = (if c = ''bA'' then Inr (Some \<lparr>content_cid = ''bA''\<rparr>) else Inr None)"

definition ex_getNothing :: "event list \<Rightarrow> string \<Rightarrow> error + ContentItemOutput option" where
  "ex_getNothing h c = Inr None"

section \<open>Properties of \<open>carStat\<close>\<close>

lemma scanBlocks_ok:
  "\<forall>b \<in> set bs. length (bytes b) \<le> MAX_BLOCK_SIZE \<Longrightarrow>
   scanBlocks r bs s = Inr \<lparr>rawRootBlock =
       (case rawRootBlock s of None \<Rightarrow> find (\<lambda>b. cid b = r) bs | Some x \<Rightarrow> Some x),
     nblocks = nblocks s + length bs,
     nsize = nsize s + sum_list (map (\<lambda>b. length (bytes b)) bs)\<rparr>"
proof (induction bs arbitrary: s)
  case Nil
  then show ?case by (cases "rawRootBlock s") simp_all
next
  case (Cons b bs)
  then show ?case by (cases "rawRootBlock s") (simp_all add: Let_def)
qed

lemma scanBlocks_too_large:
  "find (\<lambda>b. MAX_BLOCK_SIZE < length (bytes b)) bs = Some b \<Longrightarrow>
   scanBlocks r bs s = Inl (BlockTooLarge (length (bytes b)) MAX_BLOCK_SIZE)"
  by (induction bs arbitrary: s) (auto simp: Let_def split: if_splits)

lemma ulp_small: "n < 2 ^ 53 \<Longrightarrow> ulp n = 1"
  by (subst ulp.simps) simp

lemma roundDouble_exact: "n < 2 ^ 53 \<Longrightarrow> roundDouble n = n"
  by (simp add: roundDouble_def ulp_small)

lemma toNumber_exact: "n < 2 ^ 53 \<Longrightarrow> toNumber n = Finite n"
proof -
  assume a: "n < 2 ^ 53"
  have "(2::nat) ^ 53 \<le> 2 ^ 1024" by (rule power_increasing) simp_all
  with a have "n < 2 ^ 1024" by (rule less_le_trans)
  with a show ?thesis by (simp only: toNumber_def roundDouble_exact Let_def if_True)
qed

lemma tsizeOr0_exact:
  "(case Tsize l of None \<Rightarrow> 0 | Some t \<Rightarrow> t) < (2::nat) ^ 53 \<Longrightarrow>
   tsizeOr0 l = Finite (case Tsize l of None \<Rightarrow> 0 | Some t \<Rightarrow> t)"
  by (cases "Tsize l") (simp_all add: tsizeOr0_def toNumber_exact)

lemma foldl_tsize:
  "a + (\<Sum>l\<leftarrow>ls. case Tsize l of None \<Rightarrow> 0 | Some t \<Rightarrow> t) < 2 ^ 53 \<Longrightarrow>
   foldl (\<lambda>acc curr. plus' acc (tsizeOr0 curr)) (Finite a) ls
     = Finite (a + (\<Sum>l\<leftarrow>ls. case Tsize l of None \<Rightarrow> 0 | Some t \<Rightarrow> t))"
proof (induction ls arbitrary: a)
  case Nil
  then show ?case by simp
next
  case (Cons l ls)
  let ?d = "case Tsize l of None \<Rightarrow> 0 | Some t \<Rightarrow> t"
  from Cons.prems have d: "?d < 2 ^ 53" and s: "a + ?d < 2 ^ 53"
    by simp_all
  from Cons.prems
  have "(a + ?d) + (\<Sum>l\<leftarrow>ls. case Tsize l of None \<Rightarrow> 0 | Some t \<Rightarrow> t) < 2 ^ 53"
    by (simp add: add.assoc)
  from Cons.IH[OF this] show ?case
    by (simp add: tsizeOr0_exact[OF d] toNumber_exact[OF s] add.assoc)
qed

text \<open>
  Above \<open>2^53\<close> the sum is rounded at every addition: for a root of 29 bytes whose two
  links declare \<open>2^53\<close> and 1, the exact sum is 9007199254741022 and the size computed
  is 9007199254741020.
\<close>

lemma ulp_next: "2 ^ 53 \<le> n \<Longrightarrow> n < 2 ^ 54 \<Longrightarrow> ulp n = 2"
  by (subst ulp.simps) (simp add: ulp_small)

lemma cumulativeSize_rounds:
  "cumulativeSize (replicate 29 0)
     (PBNode None [\<lparr>Hash = h1, Name = None, Tsize = Some 9007199254740992\<rparr>,
                   \<lparr>Hash = h2, Name = None, Tsize = Some 1\<rparr>])
   = Inr (Finite 9007199254741020)"
proof -
  have a: "toNumber 9007199254740992 = Finite 9007199254740992"
    by (simp add: toNumber_def roundDouble_def ulp_next)
  have b: "toNumber 9007199254740993 = Finite 9007199254740992"
    by (simp add: toNumber_def roundDouble_def ulp_next)
  have c: "toNumber 9007199254741021 = Finite 9007199254741020"
    by (simp add: toNumber_def roundDouble_def ulp_next)
  show ?thesis
    by (simp add: tsizeOr0_def a b c toNumber_exact)
qed

lemma find_decoder_pb:
  "find (\<lambda>d. fst d = pb_code) (decoders lib) = Some (pb_code, pb_decode lib)"
  by (simp add: decoders_def)

text \<open>
  Claim C4. When the header declares no root, \<open>carStat\<close> fails with \<open>MissingRoot\<close>
  ('missing roots'); when it declares more than one, with \<open>TooManyRoots\<close> ('too many
  roots'). Both hold whatever the blocks of the archive are: the two checks stand before
  the loop over the blocks.
\<close>

theorem carStat_root_count:
  "(length (getRoots c) = 0 \<longrightarrow> carStat lib c = Inl MissingRoot) \<and>
   (length (getRoots c) > 1 \<longrightarrow> carStat lib c = Inl TooManyRoots)"
  by (simp add: carStat_def Let_def)

theorem carStat_root_count_witness:
  "length (getRoots ex_no_roots) = 0 \<and> carStat ex_codecs ex_no_roots = Inl MissingRoot \<and>
   length (getRoots ex_two_roots) > 1 \<and> carStat ex_codecs ex_two_roots = Inl TooManyRoots"
  using carStat_root_count[of ex_no_roots ex_codecs] carStat_root_count[of ex_two_roots ex_codecs]
  by (simp add: ex_no_roots_def ex_two_roots_def)

text \<open>
  Claim C6, as stated for every archive, fails where the header declares no root: the
  archive below holds a block of \<open>MAX_BLOCK_SIZE + 1\<close> bytes and is refused with
  \<open>MissingRoot\<close>, since the root count is checked before any block is read.
\<close>

theorem carStat_block_too_large_cex:
  "MAX_BLOCK_SIZE < length (bytes (hd (blocks ex_no_roots_big))) \<and>
   carStat ex_codecs ex_no_roots_big = Inl MissingRoot"
  by (simp add: ex_no_roots_big_def carStat_def)

text \<open>
  Claim C6, amended. For every archive with exactly one declared root that contains a
  block longer than \<open>MAX_BLOCK_SIZE\<close>, at any position, \<open>carStat\<close> fails with
  \<open>BlockTooLarge\<close>, reporting the length of the first such block of the stream; neither
  the blocks around it nor the presence of the root block matter.
\<close>

theorem carStat_block_too_large:
  assumes "length (getRoots c) = 1"
    and "b \<in> set (blocks c)" and "MAX_BLOCK_SIZE < length (bytes b)"
  shows "\<exists>b'. find (\<lambda>x. MAX_BLOCK_SIZE < length (bytes x)) (blocks c) = Some b' \<and>
     carStat lib c = Inl (BlockTooLarge (length (bytes b')) MAX_BLOCK_SIZE)"
proof -
  from assms(2,3) obtain b'
    where f: "find (\<lambda>x. MAX_BLOCK_SIZE < length (bytes x)) (blocks c) = Some b'"
    by (cases "find (\<lambda>x. MAX_BLOCK_SIZE < length (bytes x)) (blocks c)")
       (auto simp: find_None_iff)
  have "carStat lib c = Inl (BlockTooLarge (length (bytes b')) MAX_BLOCK_SIZE)"
    using assms(1)
    by (cases "getRoots c") (simp_all add: carStat_def Let_def scanBlocks_too_large[OF f])
  with f show ?thesis by blast
qed

theorem carStat_block_too_large_witness:
  "length (getRoots ex_big_last) = 1 \<and>
   MAX_BLOCK_SIZE < length (bytes (blocks ex_big_last ! 1)) \<and>
   carStat ex_codecs ex_big_last = Inl (BlockTooLarge (Suc MAX_BLOCK_SIZE) MAX_BLOCK_SIZE)"
proof -
  have a: "length (getRoots ex_big_last) = 1" by (simp add: ex_big_last_def)
  have b: "\<lparr>cid = ex_child2, bytes = replicate (Suc MAX_BLOCK_SIZE) 0\<rparr> \<in> set (blocks ex_big_last)"
    by (simp add: ex_big_last_def)
  have c: "MAX_BLOCK_SIZE
      < length (bytes \<lparr>cid = ex_child2, bytes = replicate (Suc MAX_BLOCK_SIZE) 0\<rparr>)"
    by simp
  have f: "find (\<lambda>x. MAX_BLOCK_SIZE < length (bytes x)) (blocks ex_big_last) =
      Some \<lparr>cid = ex_child2, bytes = replicate (Suc MAX_BLOCK_SIZE) 0\<rparr>"
    by (simp add: ex_big_last_def MAX_BLOCK_SIZE_def)
  from carStat_block_too_large[OF a b c, of ex_codecs] f
  have "carStat ex_codecs ex_big_last = Inl (BlockTooLarge (Suc MAX_BLOCK_SIZE) MAX_BLOCK_SIZE)"
    by simp
  with a show ?thesis by (simp add: ex_big_last_def)
qed

text \<open>
  Claim C5, as stated, fails when the only block is too long: the archive below has one
  root, one block (the root, dag-pb, decoding to a node with two links) of
  \<open>MAX_BLOCK_SIZE + 1\<close> bytes, and is refused with \<open>BlockTooLarge\<close>, since the size of a
  block is checked while it is streamed, before the root is decoded.
\<close>

theorem carStat_incomplete_dag_cex:
  "getRoots ex_big_root = [ex_root] \<and> length (blocks ex_big_root) = 1 \<and>
   cid (hd (blocks ex_big_root)) = ex_root \<and>
   find (\<lambda>d. fst d = code ex_root) (decoders ex_codecs) = Some (pb_code, pb_decode ex_codecs) \<and>
   map_option links (pb_decode ex_codecs (bytes (hd (blocks ex_big_root))))
     = Some [ex_child1, ex_child2] \<and>
   carStat ex_codecs ex_big_root = Inl (BlockTooLarge (Suc MAX_BLOCK_SIZE) MAX_BLOCK_SIZE)"
  by (simp add: ex_big_root_def carStat_def ex_root_def decoders_def ex_codecs_def ex_node_def)

text \<open>
  Claim C5, amended. For every archive with one declared root and exactly one block, the
  root block, of at most \<open>MAX_BLOCK_SIZE\<close> bytes, whose codec has a decoder among
  \<open>decoders\<close> (dag-pb, raw, dag-cbor) that decodes it to a value with one or more links,
  \<open>carStat\<close> fails with \<open>IncompleteDag\<close> ('CAR must contain at least one non-root block').
\<close>

theorem carStat_incomplete_dag:
  assumes "getRoots c = [r]" and "blocks c = [b]" and "cid b = r"
    and "length (bytes b) \<le> MAX_BLOCK_SIZE"
    and "find (\<lambda>d. fst d = code r) (decoders lib) = Some decoder"
    and "snd decoder (bytes b) = Some v"
    and "length (links v) > 0"
  shows "carStat lib c = Inl IncompleteDag"
  using assms by (simp add: carStat_def Let_def)

theorem carStat_incomplete_dag_witness:
  "getRoots ex_cbor_shard = [ex_cbor] \<and> length (blocks ex_cbor_shard) = 1 \<and>
   carStat ex_codecs ex_cbor_shard = Inl IncompleteDag"
proof -
  have "carStat ex_codecs ex_cbor_shard = Inl IncompleteDag"
    by (rule carStat_incomplete_dag[where r = ex_cbor
          and b = "\<lparr>cid = ex_cbor, bytes = [1, 2, 3]\<rparr>"
          and decoder = "(cbor_code, cbor_decode ex_codecs)" and v = "CborNode [ex_child1]"])
       (simp_all add: ex_cbor_shard_def ex_cbor_def decoders_def ex_codecs_def
          MAX_BLOCK_SIZE_def pb_code_def raw_code_def cbor_code_def)
  then show ?thesis by (simp add: ex_cbor_shard_def)
qed

text \<open>
  Claim C3, as stated, fails on the shard of its own example: the archive that holds only
  the dag-pb root of 50 bytes, whose two links declare 100 and 200, is refused with
  \<open>IncompleteDag\<close> and has no size at all.
\<close>

theorem carStat_cumulative_size_cex:
  "getRoots ex_shard = [ex_root] \<and> code ex_root = pb_code \<and>
   length (bytes (hd (blocks ex_shard))) = 50 \<and>
   pb_decode ex_codecs (bytes (hd (blocks ex_shard))) = Some ex_node \<and>
   map Tsize (Links ex_node) = [Some 100, Some 200] \<and>
   carStat ex_codecs ex_shard = Inl IncompleteDag"
  by (simp add: ex_shard_def carStat_def ex_root_def decoders_def ex_codecs_def ex_node_def
      MAX_BLOCK_SIZE_def)

text \<open>
  Claim C3, amended. For every archive that \<open>carStat\<close> accepts and whose root is dag-pb,
  that is: one declared root with the dag-pb code, every block within \<open>MAX_BLOCK_SIZE\<close>,
  the root block in the stream and decoded to a dag-pb node, and more than one block
  unless the root has no links, and for which the length of the root block's bytes plus
  the sum over its links of the declared \<open>Tsize\<close> (0 when absent) is below \<open>2^53\<close>,
  \<open>carStat\<close> returns that sum as size, whatever the bytes streamed, and the number of
  blocks as block count. For the example the full archive of three blocks has size 350,
  and so has the shard of two blocks, which streams 150 bytes. (From \<open>2^53\<close> on the
  size is the sum as JavaScript rounds it, see \<open>cumulativeSize_rounds\<close>.)
\<close>

theorem carStat_cumulative_size:
  assumes "getRoots c = [r]" and "code r = pb_code"
    and "\<forall>b \<in> set (blocks c). length (bytes b) \<le> MAX_BLOCK_SIZE"
    and "find (\<lambda>b. cid b = r) (blocks c) = Some rb"
    and "pb_decode lib (bytes rb) = Some (PBNode d ls)"
    and "length (blocks c) \<noteq> 1 \<or> ls = []"
    and "length (bytes rb) + (\<Sum>l\<leftarrow>ls. case Tsize l of None \<Rightarrow> 0 | Some t \<Rightarrow> t) < 2 ^ 53"
  shows "carStat lib c =
     Inr \<lparr>size' = Finite (length (bytes rb)
                      + (\<Sum>l\<leftarrow>ls. case Tsize l of None \<Rightarrow> 0 | Some t \<Rightarrow> t)),
          blocks' = length (blocks c)\<rparr>"
proof -
  have ne: "blocks c \<noteq> []" using assms(4) by auto
  have s: "scanBlocks r (blocks c) \<lparr>rawRootBlock = None, nblocks = 0, nsize = 0\<rparr> =
      Inr \<lparr>rawRootBlock = Some rb, nblocks = length (blocks c),
           nsize = sum_list (map (\<lambda>b. length (bytes b)) (blocks c))\<rparr>"
    using scanBlocks_ok[OF assms(3), of r "\<lparr>rawRootBlock = None, nblocks = 0, nsize = 0\<rparr>"]
      assms(4)
    by simp
  let ?sum = "\<Sum>l\<leftarrow>ls. case Tsize l of None \<Rightarrow> 0 | Some t \<Rightarrow> t"
  from assms(7) have "0 + ?sum < 2 ^ 53" by simp
  then have f: "foldl (\<lambda>acc curr. plus' acc (tsizeOr0 curr)) (Finite 0) ls = Finite ?sum"
    using foldl_tsize[of 0 ls] by simp
  have t: "cumulativeSize (bytes rb) (PBNode d ls) = Inr (Finite (length (bytes rb) + ?sum))"
    by (simp add: f toNumber_exact[OF assms(7)])
  show ?thesis
    using assms(1,2,5,6) ne
    by (auto simp add: carStat_def Let_def s find_decoder_pb t simp del: cumulativeSize.simps)
qed

theorem carStat_cumulative_size_witness:
  "carStat ex_codecs ex_full = Inr \<lparr>size' = Finite 350, blocks' = 3\<rparr> \<and>
   carStat ex_codecs ex_partial = Inr \<lparr>size' = Finite 350, blocks' = 2\<rparr>"
proof -
  have p: "carStat ex_codecs ex_partial =
     Inr \<lparr>size' = Finite (length (bytes \<lparr>cid = ex_root, bytes = replicate 50 0\<rparr>) +
            (\<Sum>l\<leftarrow>[\<lparr>Hash = ex_child1, Name = None, Tsize = Some 100\<rparr>,
                    \<lparr>Hash = ex_child2, Name = None, Tsize = Some 200\<rparr>].
               case Tsize l of None \<Rightarrow> 0 | Some t \<Rightarrow> t)),
          blocks' = length (blocks ex_partial)\<rparr>"
    by (rule carStat_cumulative_size[where r = ex_root and d = None])
       (simp_all add: ex_partial_def ex_root_def ex_child1_def ex_codecs_def ex_node_def
          MAX_BLOCK_SIZE_def pb_code_def raw_code_def)
  have "carStat ex_codecs ex_full =
     Inr \<lparr>size' = Finite (length (bytes \<lparr>cid = ex_root, bytes = replicate 50 0\<rparr>) +
            (\<Sum>l\<leftarrow>[\<lparr>Hash = ex_child1, Name = None, Tsize = Some 100\<rparr>,
                    \<lparr>Hash = ex_child2, Name = None, Tsize = Some 200\<rparr>].
               case Tsize l of None \<Rightarrow> 0 | Some t \<Rightarrow> t)),
          blocks' = length (blocks ex_full)\<rparr>"
    by (rule carStat_cumulative_size[where r = ex_root and d = None])
       (simp_all add: ex_full_def ex_root_def ex_codecs_def ex_node_def MAX_BLOCK_SIZE_def)
  with p show ?thesis by (simp add: ex_full_def ex_partial_def)
qed

section \<open>Properties of \<open>getPinningAPIStatus\<close>\<close>

lemma includes'_set: "includes' xs v \<longleftrightarrow> v \<in> set xs"
  by (induction xs) auto

text \<open>
  Claim C2, as stated, fails for the sharded variant: the function has no rule for
  \<open>'Sharded'\<close>, and a pin list whose only status is \<open>'Sharded'\<close> is reported as failed,
  not as pinned.
\<close>

theorem getPinningAPIStatus_sharded_cex:
  "getPinningAPIStatus [\<lparr>status = ''Sharded''\<rparr>] = failed"
  by (simp add: getPinningAPIStatus_def)

text \<open>
  Claim C2, amended. For every list of pins, \<open>getPinningAPIStatus\<close> returns one of
  queued, pinning, pinned and failed by this precedence: \<open>pinned\<close> when some pin has
  status \<open>'Pinned'\<close>; else \<open>pinning\<close> when some pin has \<open>'Pinning'\<close>; else \<open>queued\<close>
  when some pin has \<open>'PinQueued'\<close> or \<open>'Remote'\<close>; else \<open>queued\<close> when the list is
  empty; else \<open>failed\<close>. No other status, the sharded one included, has a rule of its own.
\<close>

theorem getPinningAPIStatus_precedence:
  "getPinningAPIStatus pins =
     (if \<exists>p \<in> set pins. status p = ''Pinned'' then pinned
      else if \<exists>p \<in> set pins. status p = ''Pinning'' then pinning
      else if \<exists>p \<in> set pins. status p = ''PinQueued'' \<or> status p = ''Remote'' then queued
      else if pins = [] then queued
      else failed)"
  unfolding getPinningAPIStatus_def Let_def includes'_set
  by (auto simp: image_iff)

theorem getPinningAPIStatus_precedence_witness:
  "getPinningAPIStatus ([] :: PinItemOutput list) = queued \<and>
   getPinningAPIStatus [\<lparr>status = ''PinQueued''\<rparr>] = queued \<and>
   getPinningAPIStatus [\<lparr>status = ''Pinning''\<rparr>, \<lparr>status = ''PinQueued''\<rparr>] = pinning \<and>
   getPinningAPIStatus [\<lparr>status = ''Pinned''\<rparr>, \<lparr>status = ''Pinning''\<rparr>] = pinned \<and>
   getPinningAPIStatus [\<lparr>status = ''Remote''\<rparr>] = queued \<and>
   getPinningAPIStatus [\<lparr>status = ''SomeUnknownState''\<rparr>] = failed"
  using getPinningAPIStatus_precedence[of "[] :: PinItemOutput list"]
    getPinningAPIStatus_precedence[of "[\<lparr>status = ''PinQueued''\<rparr>]"]
    getPinningAPIStatus_precedence[of "[\<lparr>status = ''Pinning''\<rparr>, \<lparr>status = ''PinQueued''\<rparr>]"]
    getPinningAPIStatus_precedence[of "[\<lparr>status = ''Pinned''\<rparr>, \<lparr>status = ''Pinning''\<rparr>]"]
    getPinningAPIStatus_precedence[of "[\<lparr>status = ''Remote''\<rparr>]"]
    getPinningAPIStatus_precedence[of "[\<lparr>status = ''SomeUnknownState''\<rparr>]"]
  by simp

section \<open>Properties of \<open>handleCarUpload\<close> and its polling task\<close>

text \<open>
  Claim C7. When \<open>carStat\<close> fails on the uploaded archive, \<open>handleCarUpload\<close> fails with
  the same error, the history is the one it started from (no call to \<open>cluster.add\<close>, to
  \<open>cluster.status\<close> or to the database was made) and no background task is started.
\<close>

theorem handleCarUpload_fail_before_write:
  assumes "carStat (codecs w) car = Inl e"
  shows "handleCarUpload w request waitUntil car uploadType h = (Inl e, [], h)"
  using assms by (simp add: handleCarUpload_def)

theorem handleCarUpload_fail_before_write_witness:
  "carStat (codecs ex_world) ex_shard = Inl IncompleteDag \<and>
   handleCarUpload ex_world ex_request True ex_shard ''Car'' [] = (Inl IncompleteDag, [], [])"
proof -
  have c: "carStat (codecs ex_world) ex_shard = Inl IncompleteDag"
    by (simp add: ex_world_def ex_shard_def carStat_def ex_root_def decoders_def ex_codecs_def
        ex_node_def MAX_BLOCK_SIZE_def)
  from handleCarUpload_fail_before_write[OF c] c show ?thesis by simp
qed

text \<open>
  Once the body of the loop is entered, an answer of the cluster without any peer ends
  the task with \<open>NoReplicas\<close>, after one wait and one status call and without any query
  to the database.
\<close>

lemma pollLoop_no_peers:
  assumes "Date_now w h - start > MAX_PIN_STATUS_CHECK_TIME"
    and "cluster_status w (h @ [DateNow, SetTimeout PIN_STATUS_CHECK_INTERVAL]) cid' = Inr []"
  shows "pollLoop (Suc fuel) w cid' content_id start h =
     (Threw NoReplicas,
      h @ [DateNow, SetTimeout PIN_STATUS_CHECK_INTERVAL, ClusterStatus cid'])"
  using assms by (simp add: Let_def)

text \<open>
  Claim C1 says that the polling task asks the cluster again every interval until the
  deadline, and fails with \<open>NoReplicas\<close> when the first answer has no peer. The guard of
  the loop is \<open>Date.now() - start > MAX_PIN_STATUS_CHECK_TIME\<close>: whenever the first reading
  of the clock inside the loop is at most 30 seconds after \<open>start\<close>, the body is never
  entered. The task then returns at once, having read the clock twice and asked neither
  the cluster nor the database anything, whatever the cluster would have answered.
\<close>

theorem pollPinStatus_returns_without_polling:
  assumes "Date_now w (h @ [DateNow]) - Date_now w h \<le> MAX_PIN_STATUS_CHECK_TIME"
  shows "pollPinStatus (Suc fuel) w cid' content_id h = (Returned, h @ [DateNow, DateNow])"
  using assms by (simp add: pollPinStatus_def Let_def)

theorem pollPinStatus_returns_without_polling_witness:
  "Date_now ex_world ([] @ [DateNow]) - Date_now ex_world [] \<le> MAX_PIN_STATUS_CHECK_TIME \<and>
   cluster_status ex_world [DateNow, DateNow, SetTimeout PIN_STATUS_CHECK_INTERVAL] ''bafyroot''
     = Inr [] \<and>
   pollPinStatus 10 ex_world ''bafyroot'' ''1'' [] = (Returned, [DateNow, DateNow])"
proof -
  have a: "Date_now ex_world ([] @ [DateNow]) - Date_now ex_world [] \<le> MAX_PIN_STATUS_CHECK_TIME"
    by (simp add: ex_world_def MAX_PIN_STATUS_CHECK_TIME_def)
  from pollPinStatus_returns_without_polling[OF a, of 9 "''bafyroot''" "''1''"] a
  show ?thesis by (simp add: ex_world_def)
qed

section \<open>Properties of \<open>pinsGet\<close>\<close>

text \<open>
  Claim C9 says that a \<open>match\<close> outside the four options and a \<open>status\<close> with a value
  outside the four statuses are answered with 400. Both validations of \<open>pinsGet\<close> are
  guarded the other way round (\<open>typeof match !== 'string'\<close>, \<open>!Array.isArray(status)\<close>):
  a request with any string as \<open>match\<close> and any array as \<open>status\<close>, without \<open>cid\<close> and
  \<open>name\<close>, is answered \<open>'OK'\<close> with status 200; and a non-empty string as \<open>status\<close>
  makes the handler throw a \<open>TypeError\<close>, since a string has no \<open>every\<close>.
\<close>

theorem pinsGet_unpermitted_values_pass:
  "pinsGet normalizeCid \<lparr>params_cid = Undefined, params_name = Undefined,
       params_match = Str m, params_status = Arr vs\<rparr>
     = Inr (JSONResponse (Text ''OK'') 200) \<and>
   pinsGet normalizeCid \<lparr>params_cid = Undefined, params_name = Undefined,
       params_match = Undefined, params_status = Str (a # s)\<rparr>
     = Inl TypeError"
  by (simp add: pinsGet_def)

theorem pinsGet_unpermitted_values_pass_witness:
  "\<not> includes' MATCH_OPTIONS ''foo'' \<and> \<not> includes' STATUS_OPTIONS ''bogus'' \<and>
   pinsGet (\<lambda>v. Inr ''bA'') \<lparr>params_cid = Undefined, params_name = Undefined,
       params_match = Str ''foo'', params_status = Arr [Str ''bogus'']\<rparr>
     = Inr (JSONResponse (Text ''OK'') 200) \<and>
   pinsGet (\<lambda>v. Inr ''bA'') \<lparr>params_cid = Undefined, params_name = Undefined,
       params_match = Undefined, params_status = Str ''bogus''\<rparr>
     = Inl TypeError"
  using pinsGet_unpermitted_values_pass[of "\<lambda>v. Inr ''bA''" "''foo''" "[Str ''bogus'']"
      "CHR ''b''" "''ogus''"]
  by (simp add: MATCH_OPTIONS_def STATUS_OPTIONS_def)

section \<open>Properties of \<open>parseCid\<close> and \<open>statusGet\<close>\<close>




text \<open>
  Claim C10. When the \<open>cid\<close> of the request normalises, \<open>statusGet\<close> makes exactly one
  call to the database, \<open>getStatus\<close> with the normalised string; when that call finds a
  record the response is that record with its \<open>cid\<close> replaced by the string the caller
  sent, and when it finds none the response is not-found.
\<close>

theorem statusGet_queries_normalized:
  assumes "parseCid L cid' = Inr normalizedCid"
  shows "snd (statusGet L getStatus cid' h) =
      h @ [ConsoleLog (''normalized '' @ normalizedCid), DbGetStatus normalizedCid] \<and>
    (\<forall>res. getStatus (h @ [ConsoleLog (''normalized '' @ normalizedCid)]) normalizedCid
          = Inr (Some res)
       \<longrightarrow> fst (statusGet L getStatus cid' h)
          = Inr (JSONResponse (res\<lparr>content_cid := cid'\<rparr>) 200)) \<and>
    (getStatus (h @ [ConsoleLog (''normalized '' @ normalizedCid)]) normalizedCid = Inr None
       \<longrightarrow> fst (statusGet L getStatus cid' h) = Inr NotFound)"
  using assms by (auto simp: statusGet_def Let_def split: sum.splits option.splits)

theorem statusGet_queries_normalized_witness:
  "parseCid ex_cidlib ''QmA'' = Inr ''bA'' \<and>
   statusGet ex_cidlib ex_getStatus ''QmA'' [] =
     (Inr (JSONResponse \<lparr>content_cid = ''QmA''\<rparr> 200),
      [ConsoleLog ''normalized bA'', DbGetStatus ''bA'']) \<and>
   statusGet ex_cidlib ex_getNothing ''QmA'' [] =
     (Inr NotFound, [ConsoleLog ''normalized bA'', DbGetStatus ''bA''])"
proof -
  have p: "parseCid ex_cidlib ''QmA'' = Inr ''bA''"
    by (simp add: parseCid_def ex_cidlib_def ex_v0_def)
  have g: "ex_getStatus ([] @ [ConsoleLog (''normalized '' @ ''bA'')]) ''bA''
      = Inr (Some \<lparr>content_cid = ''bA''\<rparr>)"
    by (simp add: ex_getStatus_def)
  have n: "ex_getNothing ([] @ [ConsoleLog (''normalized '' @ ''bA'')]) ''bA'' = Inr None"
    by (simp add: ex_getNothing_def)
  from statusGet_queries_normalized[OF p, of ex_getStatus "[]"] g
  have 1: "statusGet ex_cidlib ex_getStatus ''QmA'' [] =
     (Inr (JSONResponse \<lparr>content_cid = ''QmA''\<rparr> 200),
      [ConsoleLog ''normalized bA'', DbGetStatus ''bA''])"
    by (cases "statusGet ex_cidlib ex_getStatus ''QmA'' []") simp
  from statusGet_queries_normalized[OF p, of ex_getNothing "[]"] n
  have 2: "statusGet ex_cidlib ex_getNothing ''QmA'' [] =
     (Inr NotFound, [ConsoleLog ''normalized bA'', DbGetStatus ''bA''])"
    by (cases "statusGet ex_cidlib ex_getNothing ''QmA'' []") simp
  from p 1 2 show ?thesis by simp
qed

end
